theory Spec2Isabelle
  imports Complex_Main "HOL-Library.Word" "HOL-Library.Log_Nat"
begin

section \<open>Single-precision arithmetic of the configuration step\<close>

text \<open>
  The options and the Recast configuration hold C++ \<^verbatim>\<open>float\<close>s.  A finite \<^verbatim>\<open>float\<close> is a
  rational number; an operation on two of them yields the nearest binary32 value (ties to
  even, 24 significant bits, exponents from -126 to 127, gradual underflow), or a value
  that is not finite (an infinity or a NaN).  Option values are taken to be finite.
\<close>

datatype float32 = Finite rat | NonFinite

definition pow2 :: "int \<Rightarrow> rat" where
  "pow2 e = (if 0 \<le> e then 2 ^ nat e else 1 / 2 ^ nat (- e))"

definition floor_log2 :: "rat \<Rightarrow> int" where
  "floor_log2 x =
     (let d = bitlen (fst (quotient_of x)) - bitlen (snd (quotient_of x))
      in if pow2 d \<le> x then d else d - 1)"

definition round_half_even :: "rat \<Rightarrow> int" where
  "round_half_even y =
     (let f = \<lfloor>y\<rfloor>; r = y - of_int f
      in if r < 1 / 2 then f else if 1 / 2 < r then f + 1 else if even f then f else f + 1)"

definition round_f32 :: "rat \<Rightarrow> float32" where
  "round_f32 x =
     (if x = 0 then Finite 0
      else let e = max (floor_log2 \<bar>x\<bar>) (- 126);
               q = pow2 (e - 23);
               y = of_int (round_half_even (x / q)) * q
           in if pow2 128 \<le> \<bar>y\<bar> then NonFinite else Finite y)"

text \<open>\<^verbatim>\<open>a / b\<close> and \<^verbatim>\<open>a * b\<close> on floats; a division by zero gives an infinity or a NaN.\<close>

definition fdiv :: "rat \<Rightarrow> rat \<Rightarrow> float32" where
  "fdiv a b = (if b = 0 then NonFinite else round_f32 (a / b))"

definition fmul :: "rat \<Rightarrow> rat \<Rightarrow> float32" where
  "fmul a b = round_f32 (a * b)"

text \<open>\<^verbatim>\<open>ceilf\<close>: the ceiling of a binary32 value is a binary32 value, so nothing is rounded.\<close>

fun ceilf :: "float32 \<Rightarrow> float32" where
  "ceilf (Finite x) = Finite (of_int \<lceil>x\<rceil>)"
| "ceilf NonFinite = NonFinite"

text \<open>\<^verbatim>\<open>template<class T> T rcSqr(T a) { return a*a; }\<close>, used at type \<^verbatim>\<open>float\<close>.\<close>

definition rcSqr :: "rat \<Rightarrow> float32" where
  "rcSqr a = fmul a a"

section \<open>Errors\<close>

text \<open>
  \<^verbatim>\<open>Debug::Assert\<close> and \<^verbatim>\<open>Debug::Fatal\<close> leave the constructor at once; so does the
  dereference of a null pointer, which the model records instead of continuing.
\<close>

datatype error =
    AssertionFailed string
  | Fatal string
  | NullDereference

definition truncf :: "rat \<Rightarrow> int" where
  "truncf x = (if 0 \<le> x then \<lfloor>x\<rfloor> else \<lceil>x\<rceil>)"

text \<open>
  The implicit conversion \<^verbatim>\<open>float\<close> to \<^verbatim>\<open>int\<close> (32 bits) of an assignment.  The source
  checks nothing: the value is truncated towards zero, and where the truncation is no
  \<^verbatim>\<open>int\<close>, or the \<^verbatim>\<open>float\<close> is not finite, the conversion instruction yields the least
  \<^verbatim>\<open>int\<close> and the constructor goes on.
\<close>

fun float_to_int :: "float32 \<Rightarrow> int" where
  "float_to_int (Finite x) =
     (if - (2 ^ 31) \<le> truncf x \<and> truncf x < 2 ^ 31 then truncf x else - (2 ^ 31))"
| "float_to_int NonFinite = - (2 ^ 31)"

section \<open>Options and configuration\<close>

text \<open>
  \<^verbatim>\<open>NavMeshOptions\<close> is declared in \<^verbatim>\<open>NavMeshComponent.hpp\<close>; its fields are the ones the
  constructor reads, lengths and angles as \<^verbatim>\<open>float\<close>, the vertex bound as an integer.
\<close>

record agentOptions =
  height :: rat
  radius :: rat
  maxClimb :: rat
  maxSlope :: rat

datatype partitionMethod = Watershed | Monotone | Layer

record navMeshOptions =
  cellSize :: rat
  cellHeight :: rat
  agent :: agentOptions
  maxEdgeLen :: rat
  maxSimplificationError :: rat
  regionMinDimension :: rat
  regionMergeDimension :: rat
  maxVertsPerPoly :: int
  detailSampleDist :: rat
  detailSampleMaxError :: rat
  partitionMethod :: partitionMethod

type_synonym vec3 = "rat \<times> rat \<times> rat"

text \<open>The fields of \<^verbatim>\<open>rcConfig\<close> that the constructor sets; \<^verbatim>\<open>cfg.f\<close> is \<open>cfg_f\<close>.\<close>

record rcConfig =
  cfg_width :: int
  cfg_height :: int
  cfg_cs :: rat
  cfg_ch :: rat
  cfg_bmin :: vec3
  cfg_bmax :: vec3
  cfg_walkableSlopeAngle :: rat
  cfg_walkableHeight :: int
  cfg_walkableClimb :: int
  cfg_walkableRadius :: int
  cfg_maxEdgeLen :: int
  cfg_maxSimplificationError :: rat
  cfg_minRegionArea :: int
  cfg_mergeRegionArea :: int
  cfg_maxVertsPerPoly :: int
  cfg_detailSampleDist :: float32
  cfg_detailSampleMaxError :: float32

definition rcVcopy :: "vec3 \<Rightarrow> vec3" where
  "rcVcopy v = v"

text \<open>
  Step 1, \<^verbatim>\<open>setup configuration\<close>.  \<^verbatim>\<open>rcCalcGridSize\<close> is Recast's and is a parameter:
  \<open>calcGridSize bmin bmax cs\<close> is the pair it stores in \<^verbatim>\<open>cfg.width\<close> and \<^verbatim>\<open>cfg.height\<close>.
  The assignments to the \<^verbatim>\<open>int\<close> fields convert a \<^verbatim>\<open>float\<close>, in the order of the source.
  \<^verbatim>\<open>opt.detailSampleDist < 0.9\<close> compares with the \<^verbatim>\<open>double\<close> nearest to nine tenths; no
  \<^verbatim>\<open>float\<close> lies between the two, so the comparison is the one with nine tenths.
\<close>

definition setupConfiguration ::
  "(vec3 \<Rightarrow> vec3 \<Rightarrow> rat \<Rightarrow> int \<times> int) \<Rightarrow> navMeshOptions \<Rightarrow> vec3 \<Rightarrow> vec3 \<Rightarrow> rcConfig" where
  "setupConfiguration calcGridSize opt bounds_min bounds_max =
     \<lparr> cfg_width = fst (calcGridSize (rcVcopy bounds_min) (rcVcopy bounds_max) (cellSize opt)),
       cfg_height = snd (calcGridSize (rcVcopy bounds_min) (rcVcopy bounds_max) (cellSize opt)),
       cfg_cs = cellSize opt,
       cfg_ch = cellHeight opt,
       cfg_bmin = rcVcopy bounds_min,
       cfg_bmax = rcVcopy bounds_max,
       cfg_walkableSlopeAngle = maxSlope (agent opt),
       cfg_walkableHeight = float_to_int (ceilf (fdiv (height (agent opt)) (cellHeight opt))),
       cfg_walkableClimb = float_to_int (ceilf (fdiv (maxClimb (agent opt)) (cellHeight opt))),
       cfg_walkableRadius = float_to_int (ceilf (fdiv (radius (agent opt)) (cellSize opt))),
       cfg_maxEdgeLen = float_to_int (fdiv (maxEdgeLen opt) (cellSize opt)),
       cfg_maxSimplificationError = maxSimplificationError opt,
       cfg_minRegionArea = float_to_int (rcSqr (regionMinDimension opt)),
       cfg_mergeRegionArea = float_to_int (rcSqr (regionMergeDimension opt)),
       cfg_maxVertsPerPoly = maxVertsPerPoly opt,
       cfg_detailSampleDist =
         (if detailSampleDist opt < 9 / 10 then Finite 0
          else fmul (cellSize opt) (detailSampleDist opt)),
       cfg_detailSampleMaxError = fmul (cellHeight opt) (detailSampleMaxError opt) \<rparr>"

section \<open>The mesh asset and the component\<close>

text \<open>
  A vertex of the asset carries more than its position; the constructor keeps the position
  only.  Indices are 32-bit.  Pointers are addresses, \<open>None\<close> the null pointer.
\<close>

record vertexNormalUV =
  position :: vec3
  normal :: vec3
  uv :: "rat \<times> rat"

record meshPart =
  vertices :: "vertexNormalUV list"
  indices :: "32 word list"

record meshAsset =
  hasSystemRAMCopy :: bool
  systemCopy :: meshPart
  bounds_min :: vec3
  bounds_max :: vec3

type_synonym ptr = nat

text \<open>
  The data members of the component.  Their initial values are set in
  \<^verbatim>\<open>NavMeshComponent.hpp\<close> and are a parameter: \<open>this\<close> holds the members as they are when
  the constructor's body is entered.
\<close>

record component =
  navMesh :: "ptr option"
  navMeshQuery :: "ptr option"
  navData :: "ptr option"

text \<open>
  What the constructor reads of \<^verbatim>\<open>rcPolyMesh\<close> and \<^verbatim>\<open>rcPolyMeshDetail\<close> once Recast has
  built them, and the \<^verbatim>\<open>dtNavMeshCreateParams\<close> it fills in (the off-mesh connection arrays
  are null and their count is 0).
\<close>

record rcPolyMesh =
  pmesh_verts :: "nat list"
  pmesh_nverts :: int
  pmesh_polys :: "nat list"
  pmesh_areas :: "nat list"
  pmesh_flags :: "nat list"
  pmesh_npolys :: int
  pmesh_nvp :: int
  pmesh_bmin :: vec3
  pmesh_bmax :: vec3

record rcPolyMeshDetail =
  dmesh_meshes :: "nat list"
  dmesh_verts :: "rat list"
  dmesh_nverts :: int
  dmesh_tris :: "nat list"
  dmesh_ntris :: int

record dtNavMeshCreateParams =
  params_verts :: "nat list"
  params_vertCount :: int
  params_polys :: "nat list"
  params_polyAreas :: "nat list"
  params_polyFlags :: "nat list"
  params_polyCount :: int
  params_nvp :: int
  params_detailMeshes :: "nat list"
  params_detailVerts :: "rat list"
  params_detailVertsCount :: int
  params_detailTris :: "nat list"
  params_detailTriCount :: int
  params_offMeshConCount :: int
  params_walkableHeight :: rat
  params_walkableRadius :: rat
  params_walkableClimb :: rat
  params_bmin :: vec3
  params_bmax :: vec3
  params_cs :: rat
  params_ch :: rat
  params_buildBvTree :: bool

datatype dtTileFlags = DT_TILE_FREE_DATA

section \<open>Calls into Recast and Detour\<close>

text \<open>
  Recast and Detour are libraries the constructor links against.  What each call returns in
  one run of the constructor is a parameter; every call is made at most once in a run, so a
  record of the return values covers every behaviour of the libraries.
\<close>

record library =
  ret_rcCalcGridSize :: "vec3 \<Rightarrow> vec3 \<Rightarrow> rat \<Rightarrow> int \<times> int"
  ret_rcAllocHeightfield :: "ptr option"
  ret_rcCreateHeightfield :: bool
  ret_rcRasterizeTriangles :: bool
  ret_rcAllocCompactHeightfield :: "ptr option"
  ret_rcBuildCompactHeightfield :: bool
  ret_rcErodeWalkableArea :: bool
  ret_rcBuildDistanceField :: bool
  ret_rcBuildRegions :: bool
  ret_rcBuildRegionsMonotone :: bool
  ret_rcBuildLayerRegions :: bool
  ret_rcAllocContourSet :: "ptr option"
  ret_rcBuildContours :: bool
  ret_rcAllocPolyMesh :: "ptr option"
  ret_rcBuildPolyMesh :: "rcPolyMesh option"
  ret_rcAllocPolyMeshDetail :: "ptr option"
  ret_rcBuildPolyMeshDetail :: "rcPolyMeshDetail option"
  DT_VERTS_PER_POLYGON :: int
  ret_dtCreateNavMeshData :: "(ptr \<times> int) option"
  ret_dtAllocNavMesh :: "ptr option"
  ret_dtNavMesh_init :: bool
  ret_dtNavMeshQuery_init :: bool

text \<open>
  The calls the constructor and the destructor make, in the order they make them, with the
  arguments they pass; an allocation also shows the pointer it returned, an initialisation
  whether it succeeded.  The triangle-area array is shown by its number of elements.
\<close>

datatype event =
    AllocHeightfield "ptr option"
  | CreateHeightfield ptr int int vec3 vec3 rat rat
  | NewArray nat
  | Memset nat nat
  | MarkWalkableTriangles rat "vec3 list" int "32 word list" int nat
  | RasterizeTriangles "vec3 list" nat int ptr
  | DeleteArray nat
  | FilterLowHangingWalkableObstacles int ptr
  | FilterLedgeSpans int int ptr
  | FilterWalkableLowHeightSpans int ptr
  | AllocCompactHeightfield "ptr option"
  | BuildCompactHeightfield int int ptr ptr
  | FreeHeightField "ptr option"
  | ErodeWalkableArea int ptr
  | BuildDistanceField ptr
  | BuildRegions ptr int int int
  | BuildRegionsMonotone ptr int int int
  | BuildLayerRegions ptr int int
  | AllocContourSet "ptr option"
  | BuildContours ptr rat int ptr
  | AllocPolyMesh "ptr option"
  | BuildPolyMesh ptr int ptr
  | AllocPolyMeshDetail "ptr option"
  | BuildPolyMeshDetail ptr ptr float32 float32 ptr
  | FreeCompactHeightfield "ptr option"
  | FreeContourSet "ptr option"
  | CreateNavMeshData dtNavMeshCreateParams "(ptr \<times> int) option"
  | AllocNavMesh "ptr option"
  | NavMeshInit ptr "ptr option" int dtTileFlags bool
  | NavMeshQueryInit ptr ptr int bool
  | DtFree "ptr option"
  | Warning string

text \<open>A run: the calls made so far, and either the error that ended it or its result.\<close>

type_synonym 'a run = "event list \<times> (error + 'a)"

definition ret :: "'a \<Rightarrow> 'a run" where
  "ret x = ([], Inr x)"

definition emit :: "event \<Rightarrow> unit run" where
  "emit ev = ([ev], Inr ())"

definition raise :: "error \<Rightarrow> 'a run" where
  "raise err = ([], Inl err)"

definition andThen :: "'a run \<Rightarrow> ('a \<Rightarrow> 'b run) \<Rightarrow> 'b run" where
  "andThen m f =
     (case m of
        (tr, Inl err) \<Rightarrow> (tr, Inl err)
      | (tr, Inr x) \<Rightarrow> (case f x of (tr', r) \<Rightarrow> (tr @ tr', r)))"

definition seq :: "unit run \<Rightarrow> 'a run \<Rightarrow> 'a run" where
  "seq m k = andThen m (\<lambda>_. k)"

definition whenever :: "bool \<Rightarrow> unit run \<Rightarrow> unit run" where
  "whenever c m = (if c then m else ret ())"

text \<open>\<^verbatim>\<open>*p\<close> and \<^verbatim>\<open>p->\<close>.\<close>

definition deref :: "ptr option \<Rightarrow> ptr run" where
  "deref p = (case p of None \<Rightarrow> raise NullDereference | Some a \<Rightarrow> ret a)"

text \<open>
  Modelled from the spec: \<^verbatim>\<open>Debug.hpp\<close> is not among the sources.  A fatal diagnostic and
  a failed assertion abort the bake; a warning is reported and the bake goes on.
\<close>

definition Debug_Fatal :: "string \<Rightarrow> 'a run" where
  "Debug_Fatal msg = raise (Fatal msg)"

definition Debug_Assert :: "bool \<Rightarrow> string \<Rightarrow> unit run" where
  "Debug_Assert c msg = (if c then ret () else raise (AssertionFailed msg))"

definition Debug_Warning :: "string \<Rightarrow> unit run" where
  "Debug_Warning msg = emit (Warning msg)"

text \<open>A \<^verbatim>\<open>size_t\<close> passed where the callee takes an \<^verbatim>\<open>int\<close>.\<close>

definition size_to_int :: "nat \<Rightarrow> int" where
  "size_to_int n = sint (word_of_nat n :: 32 word)"

section \<open>The constructor, block by block\<close>

text \<open>The loop that copies the positions out of the asset's vertices.\<close>

fun copyPositions :: "vertexNormalUV list \<Rightarrow> vec3 list" where
  "copyPositions [] = []"
| "copyPositions (v # vs) = position v # copyPositions vs"

text \<open>Step 2, first half: the solid heightfield is allocated and created.\<close>

definition createSolidHeightfield :: "library \<Rightarrow> rcConfig \<Rightarrow> ptr run" where
  "createSolidHeightfield lib cfg =
     (let solid = ret_rcAllocHeightfield lib in
      seq (emit (AllocHeightfield solid))
     (seq (whenever (solid \<noteq> None) (Debug_Fatal ''Build nagivation failed: out of memory''))
     (andThen (deref solid) (\<lambda>hf.
      seq (emit (CreateHeightfield hf (cfg_width cfg) (cfg_height cfg) (cfg_bmin cfg) (cfg_bmax cfg)
                   (cfg_cs cfg) (cfg_ch cfg)))
     (seq (whenever (\<not> ret_rcCreateHeightfield lib) (Debug_Fatal ''Height field generation failed''))
          (ret hf))))))"

text \<open>
  Step 2, second half: the triangle-area array is allocated and cleared, the triangles are
  classified and rasterized, and the array is deleted.
\<close>

definition rasterizeInputPolygon ::
  "library \<Rightarrow> rcConfig \<Rightarrow> meshPart \<Rightarrow> vec3 list \<Rightarrow> ptr \<Rightarrow> unit run" where
  "rasterizeInputPolygon lib cfg rawData vertsOnly solid =
     (let nverts = length (vertices rawData);
          triareas = length (indices rawData) div 3 in
      seq (emit (NewArray triareas))
     (seq (emit (Memset triareas (length (indices rawData) div 3 * 1)))
     (seq (emit (MarkWalkableTriangles (cfg_walkableSlopeAngle cfg) vertsOnly (size_to_int nverts)
                   (indices rawData) (size_to_int (length (indices rawData))) triareas))
     (seq (emit (RasterizeTriangles vertsOnly triareas (size_to_int (length vertsOnly)) solid))
     (seq (whenever (\<not> ret_rcRasterizeTriangles lib)
             (Debug_Fatal ''Could not rasterize triangles for navigation''))
          (emit (DeleteArray triareas)))))))"

text \<open>Step 3, \<^verbatim>\<open>filter walkable areas\<close>.\<close>

definition filterWalkableAreas :: "rcConfig \<Rightarrow> ptr \<Rightarrow> unit run" where
  "filterWalkableAreas cfg solid =
     seq (emit (FilterLowHangingWalkableObstacles (cfg_walkableClimb cfg) solid))
    (seq (emit (FilterLedgeSpans (cfg_walkableHeight cfg) (cfg_walkableClimb cfg) solid))
         (emit (FilterWalkableLowHeightSpans (cfg_walkableHeight cfg) solid)))"

text \<open>Step 4: the compact heightfield is built, the solid one freed, the walkable area eroded.\<close>

definition buildCompactHeightfield :: "library \<Rightarrow> rcConfig \<Rightarrow> ptr \<Rightarrow> ptr run" where
  "buildCompactHeightfield lib cfg solid =
     (let chf = ret_rcAllocCompactHeightfield lib in
      seq (emit (AllocCompactHeightfield chf))
     (seq (whenever (chf = None) (Debug_Fatal ''Failed to allocate compact height field''))
     (andThen (deref chf) (\<lambda>c.
      seq (emit (BuildCompactHeightfield (cfg_walkableHeight cfg) (cfg_walkableClimb cfg) solid c))
     (seq (whenever (\<not> ret_rcBuildCompactHeightfield lib)
             (Debug_Fatal ''Compact height field generation failed''))
     (seq (emit (FreeHeightField (Some solid)))
          (ret c)))))))"

definition erodeWalkableArea :: "library \<Rightarrow> rcConfig \<Rightarrow> ptr \<Rightarrow> unit run" where
  "erodeWalkableArea lib cfg chf =
     seq (emit (ErodeWalkableArea (cfg_walkableRadius cfg) chf))
         (whenever (\<not> ret_rcErodeWalkableArea lib) (Debug_Fatal ''Walkable radius erode failed''))"

text \<open>The \<^verbatim>\<open>switch\<close> on the partition method.\<close>

fun partitionRegions :: "library \<Rightarrow> rcConfig \<Rightarrow> ptr \<Rightarrow> partitionMethod \<Rightarrow> unit run" where
  "partitionRegions lib cfg chf Watershed =
     seq (emit (BuildDistanceField chf))
    (seq (whenever (\<not> ret_rcBuildDistanceField lib) (Debug_Fatal ''Distance field generation failed''))
    (seq (emit (BuildRegions chf 0 (cfg_minRegionArea cfg) (cfg_mergeRegionArea cfg)))
         (whenever (\<not> ret_rcBuildRegions lib) (Debug_Fatal ''Region generation failed''))))"
| "partitionRegions lib cfg chf Monotone =
     seq (emit (BuildRegionsMonotone chf 0 (cfg_minRegionArea cfg) (cfg_mergeRegionArea cfg)))
         (whenever (\<not> ret_rcBuildRegionsMonotone lib) (Debug_Fatal ''Monotone region generation failed''))"
| "partitionRegions lib cfg chf Layer =
     seq (emit (BuildLayerRegions chf 0 (cfg_minRegionArea cfg)))
         (whenever (\<not> ret_rcBuildLayerRegions lib) (Debug_Fatal ''Layer region generation failed''))"

text \<open>Step 5, \<^verbatim>\<open>trace and simplify region contours\<close>.\<close>

definition traceContours :: "library \<Rightarrow> rcConfig \<Rightarrow> ptr \<Rightarrow> ptr run" where
  "traceContours lib cfg chf =
     (let cset = ret_rcAllocContourSet lib in
      seq (emit (AllocContourSet cset))
     (seq (whenever (cset = None) (Debug_Fatal ''Could not allocate contour set''))
     (andThen (deref cset) (\<lambda>cs.
      seq (emit (BuildContours chf (cfg_maxSimplificationError cfg) (cfg_maxEdgeLen cfg) cs))
     (seq (whenever (\<not> ret_rcBuildContours lib) (Debug_Fatal ''Contour generation failed''))
          (ret cs))))))"

text \<open>
  Step 6, \<^verbatim>\<open>build polygon mesh from contours\<close>: the result is the mesh's address and what
  Recast stored in it.
\<close>

definition buildPolygonMesh :: "library \<Rightarrow> rcConfig \<Rightarrow> ptr \<Rightarrow> (ptr \<times> rcPolyMesh) run" where
  "buildPolygonMesh lib cfg cset =
     (let pmesh = ret_rcAllocPolyMesh lib in
      seq (emit (AllocPolyMesh pmesh))
     (seq (whenever (pmesh = None) (Debug_Fatal ''PolyMesh allocation failed''))
     (andThen (deref pmesh) (\<lambda>pm.
      seq (emit (BuildPolyMesh cset (cfg_maxVertsPerPoly cfg) pm))
     (case ret_rcBuildPolyMesh lib of
        None \<Rightarrow> Debug_Fatal ''Contour triangulation failed''
      | Some built \<Rightarrow> ret (pm, built))))))"

text \<open>Step 7, \<^verbatim>\<open>create detail mesh\<close>.\<close>

definition createDetailMesh ::
  "library \<Rightarrow> rcConfig \<Rightarrow> ptr \<Rightarrow> ptr \<Rightarrow> (ptr \<times> rcPolyMeshDetail) run" where
  "createDetailMesh lib cfg pmesh chf =
     (let dmesh = ret_rcAllocPolyMeshDetail lib in
      seq (emit (AllocPolyMeshDetail dmesh))
     (seq (whenever (dmesh = None) (Debug_Fatal ''Detail mesh allocation failed''))
     (andThen (deref dmesh) (\<lambda>dm.
      seq (emit (BuildPolyMeshDetail pmesh chf (cfg_detailSampleDist cfg)
                   (cfg_detailSampleMaxError cfg) dm))
     (case ret_rcBuildPolyMeshDetail lib of
        None \<Rightarrow> Debug_Fatal ''Detail mesh generation failed''
      | Some built \<Rightarrow> ret (dm, built))))))"

definition freeIntermediates :: "ptr \<Rightarrow> ptr \<Rightarrow> unit run" where
  "freeIntermediates chf cset =
     seq (emit (FreeCompactHeightfield (Some chf))) (emit (FreeContourSet (Some cset)))"

text \<open>
  Step 8, \<^verbatim>\<open>create detour data\<close>.  The creation parameters are filled from the two meshes,
  the agent's world-unit sizes and the cell sizes.  \<^verbatim>\<open>dtCreateNavMeshData\<close> stores the blob in
  the member \<^verbatim>\<open>navData\<close> and its size in a local; the mesh then allocated is held in a local
  variable named \<^verbatim>\<open>navMesh\<close>, and the query initialised is the member \<^verbatim>\<open>navMeshQuery\<close>.
\<close>

definition navMeshCreateParams ::
  "navMeshOptions \<Rightarrow> rcConfig \<Rightarrow> rcPolyMesh \<Rightarrow> rcPolyMeshDetail \<Rightarrow> dtNavMeshCreateParams" where
  "navMeshCreateParams opt cfg pmesh dmesh =
     \<lparr> params_verts = pmesh_verts pmesh,
       params_vertCount = pmesh_nverts pmesh,
       params_polys = pmesh_polys pmesh,
       params_polyAreas = pmesh_areas pmesh,
       params_polyFlags = pmesh_flags pmesh,
       params_polyCount = pmesh_npolys pmesh,
       params_nvp = pmesh_nvp pmesh,
       params_detailMeshes = dmesh_meshes dmesh,
       params_detailVerts = dmesh_verts dmesh,
       params_detailVertsCount = dmesh_nverts dmesh,
       params_detailTris = dmesh_tris dmesh,
       params_detailTriCount = dmesh_ntris dmesh,
       params_offMeshConCount = 0,
       params_walkableHeight = height (agent opt),
       params_walkableRadius = radius (agent opt),
       params_walkableClimb = maxClimb (agent opt),
       params_bmin = rcVcopy (pmesh_bmin pmesh),
       params_bmax = rcVcopy (pmesh_bmax pmesh),
       params_cs = cfg_cs cfg,
       params_ch = cfg_ch cfg,
       params_buildBvTree = True \<rparr>"

definition createDetourData ::
  "library \<Rightarrow> component \<Rightarrow> navMeshOptions \<Rightarrow> rcConfig \<Rightarrow> rcPolyMesh \<Rightarrow> rcPolyMeshDetail
     \<Rightarrow> component run" where
  "createDetourData lib this opt cfg pmesh dmesh =
     (if cfg_maxVertsPerPoly cfg \<le> DT_VERTS_PER_POLYGON lib then
        let params = navMeshCreateParams opt cfg pmesh dmesh;
            created = ret_dtCreateNavMeshData lib;
            this' = (case created of None \<Rightarrow> this | Some (blob, n) \<Rightarrow> this\<lparr>navData := Some blob\<rparr>);
            navDataSize = (case created of None \<Rightarrow> 0 | Some (blob, n) \<Rightarrow> n);
            mesh = ret_dtAllocNavMesh lib
        in
        seq (emit (CreateNavMeshData params created))
       (seq (whenever (created = None) (Debug_Fatal ''Detour mesh data creation failed''))
       (seq (emit (AllocNavMesh mesh))
       (seq (whenever (mesh = None)
               (seq (emit (DtFree (navData this'))) (Debug_Fatal ''Detour mesh allocaton failed'')))
       (andThen (deref mesh) (\<lambda>nm.
        seq (emit (NavMeshInit nm (navData this') navDataSize DT_TILE_FREE_DATA (ret_dtNavMesh_init lib)))
       (seq (whenever (\<not> ret_dtNavMesh_init lib)
               (seq (emit (DtFree (navData this'))) (Debug_Fatal ''Could not init Detour navmesh'')))
       (andThen (deref (navMeshQuery this')) (\<lambda>q.
        seq (emit (NavMeshQueryInit q nm 2048 (ret_dtNavMeshQuery_init lib)))
       (seq (whenever (\<not> ret_dtNavMeshQuery_init lib)
               (Debug_Fatal ''Could not init Detour navmesh query''))
            (ret this'))))))))))
      else
        seq (Debug_Warning ''Cannot generate Detour data for NavMesh - too many vertices'')
            (ret this))"

section \<open>The constructor and the destructor\<close>

definition NavMeshComponent ::
  "library \<Rightarrow> component \<Rightarrow> meshAsset \<Rightarrow> navMeshOptions \<Rightarrow> component run" where
  "NavMeshComponent lib this mesh opt =
     seq (Debug_Assert (hasSystemRAMCopy mesh) ''MeshAsset must be created with keepInSystemRAM = true'')
    (let rawData = systemCopy mesh;
         vertsOnly = copyPositions (vertices rawData);
         cfg = setupConfiguration (ret_rcCalcGridSize lib) opt (bounds_min mesh) (bounds_max mesh) in
     andThen (createSolidHeightfield lib cfg) (\<lambda>solid.
     seq (rasterizeInputPolygon lib cfg rawData vertsOnly solid)
    (seq (filterWalkableAreas cfg solid)
    (andThen (buildCompactHeightfield lib cfg solid) (\<lambda>chf.
     seq (erodeWalkableArea lib cfg chf)
    (seq (partitionRegions lib cfg chf (partitionMethod opt))
    (andThen (traceContours lib cfg chf) (\<lambda>cset.
     andThen (buildPolygonMesh lib cfg cset) (\<lambda>(pm, pmesh).
     andThen (createDetailMesh lib cfg pm chf) (\<lambda>(dm, dmesh).
     seq (freeIntermediates chf cset)
         (createDetourData lib this opt cfg pmesh dmesh)))))))))))"

definition NavMeshComponent_destructor :: "component \<Rightarrow> unit run" where
  "NavMeshComponent_destructor this =
     seq (emit (DtFree (navMesh this)))
    (seq (emit (DtFree (navMeshQuery this)))
         (emit (DtFree (navData this))))"

section \<open>Vocabulary of the properties\<close>

text \<open>The calls that filter spans, and the sample distances given to the detail mesh builder.\<close>

fun isSpanFilter :: "event \<Rightarrow> bool" where
  "isSpanFilter (FilterLowHangingWalkableObstacles climb solid) = True"
| "isSpanFilter (FilterLedgeSpans h climb solid) = True"
| "isSpanFilter (FilterWalkableLowHeightSpans h solid) = True"
| "isSpanFilter _ = False"

fun detailSampleDistancesPassed :: "event list \<Rightarrow> float32 list" where
  "detailSampleDistancesPassed [] = []"
| "detailSampleDistancesPassed (BuildPolyMeshDetail pm chf d maxErr dm # evs) =
     d # detailSampleDistancesPassed evs"
| "detailSampleDistancesPassed (ev # evs) = detailSampleDistancesPassed evs"


section \<open>A concrete bake\<close>

text \<open>
  A flat square of side 10 made of two triangles, cells of 0.3 by 0.2, an agent of height
  2, radius 0.5, climb 0.4 and slope 45 degrees, watershed partitioning and at most 6
  vertices per polygon.  The decimal fractions are the \<^verbatim>\<open>float\<close>s nearest to them.
\<close>

definition exampleOptions :: navMeshOptions where
  "exampleOptions =
     \<lparr> cellSize = 5033165 / 16777216,
       cellHeight = 13421773 / 67108864,
       agent = \<lparr> height = 2, radius = 1 / 2, maxClimb = 13421773 / 33554432, maxSlope = 45 \<rparr>,
       maxEdgeLen = 12,
       maxSimplificationError = 5452595 / 4194304,
       regionMinDimension = 8,
       regionMergeDimension = 20,
       maxVertsPerPoly = 6,
       detailSampleDist = 6,
       detailSampleMaxError = 1,
       partitionMethod = Watershed \<rparr>"

definition exampleVertex :: "rat \<Rightarrow> rat \<Rightarrow> vertexNormalUV" where
  "exampleVertex x z = \<lparr> position = (x, 0, z), normal = (0, 1, 0), uv = (x / 10, z / 10) \<rparr>"

definition exampleMesh :: meshAsset where
  "exampleMesh =
     \<lparr> hasSystemRAMCopy = True,
       systemCopy =
         \<lparr> vertices = [exampleVertex 0 0, exampleVertex 10 0, exampleVertex 10 10, exampleVertex 0 10],
           indices = [0, 2, 1, 0, 3, 2] \<rparr>,
       bounds_min = (0, 0, 0),
       bounds_max = (10, 0, 10) \<rparr>"

definition examplePolyMesh :: rcPolyMesh where
  "examplePolyMesh =
     \<lparr> pmesh_verts = [2, 0, 2, 31, 0, 2, 31, 0, 31, 2, 0, 31],
       pmesh_nverts = 4,
       pmesh_polys = [0, 1, 2, 3, 65535, 65535, 65535, 65535, 65535, 65535, 65535, 65535],
       pmesh_areas = [63],
       pmesh_flags = [0],
       pmesh_npolys = 1,
       pmesh_nvp = 6,
       pmesh_bmin = (0, 0, 0),
       pmesh_bmax = (10, 0, 10) \<rparr>"

definition examplePolyMeshDetail :: rcPolyMeshDetail where
  "examplePolyMeshDetail =
     \<lparr> dmesh_meshes = [0, 4, 0, 2],
       dmesh_verts = [1, 0, 1, 9, 0, 1, 9, 0, 9, 1, 0, 9],
       dmesh_nverts = 4,
       dmesh_tris = [0, 1, 2, 0, 0, 2, 3, 0],
       dmesh_ntris = 2 \<rparr>"

text \<open>Every library call succeeds; the runtime format takes 6 vertices per polygon.\<close>

definition exampleLibrary :: library where
  "exampleLibrary =
     \<lparr> ret_rcCalcGridSize = (\<lambda>bmin bmax cs. (33, 33)),
       ret_rcAllocHeightfield = Some 1,
       ret_rcCreateHeightfield = True,
       ret_rcRasterizeTriangles = True,
       ret_rcAllocCompactHeightfield = Some 2,
       ret_rcBuildCompactHeightfield = True,
       ret_rcErodeWalkableArea = True,
       ret_rcBuildDistanceField = True,
       ret_rcBuildRegions = True,
       ret_rcBuildRegionsMonotone = True,
       ret_rcBuildLayerRegions = True,
       ret_rcAllocContourSet = Some 3,
       ret_rcBuildContours = True,
       ret_rcAllocPolyMesh = Some 4,
       ret_rcBuildPolyMesh = Some examplePolyMesh,
       ret_rcAllocPolyMeshDetail = Some 5,
       ret_rcBuildPolyMeshDetail = Some examplePolyMeshDetail,
       DT_VERTS_PER_POLYGON = 6,
       ret_dtCreateNavMeshData = Some (7, 100),
       ret_dtAllocNavMesh = Some 8,
       ret_dtNavMesh_init = True,
       ret_dtNavMeshQuery_init = True \<rparr>"

text \<open>The members on entry: all null.\<close>

definition exampleComponent :: component where
  "exampleComponent = \<lparr> navMesh = None, navMeshQuery = None, navData = None \<rparr>"

text \<open>
  The same options for an agent three thousand million units tall, on cells of height 1;
  and for a climb of 0.6 (the \<^verbatim>\<open>float\<close> nearest to it) on cells of height 0.2.
\<close>

definition tallAgentOptions :: navMeshOptions where
  "tallAgentOptions =
     exampleOptions \<lparr> cellHeight := 1, agent := (agent exampleOptions) \<lparr> height := 3000000000 \<rparr> \<rparr>"

definition steepClimbOptions :: navMeshOptions where
  "steepClimbOptions = exampleOptions \<lparr> agent := (agent exampleOptions) \<lparr> maxClimb := 5033165 / 8388608 \<rparr> \<rparr>"

text \<open>The configuration step 1 derives from the example options (see \<open>setupConfiguration_example\<close>).\<close>

definition exampleConfig :: rcConfig where
  "exampleConfig =
     \<lparr> cfg_width = 33,
       cfg_height = 33,
       cfg_cs = 5033165 / 16777216,
       cfg_ch = 13421773 / 67108864,
       cfg_bmin = (0, 0, 0),
       cfg_bmax = (10, 0, 10),
       cfg_walkableSlopeAngle = 45,
       cfg_walkableHeight = 10,
       cfg_walkableClimb = 2,
       cfg_walkableRadius = 2,
       cfg_maxEdgeLen = 40,
       cfg_maxSimplificationError = 5452595 / 4194304,
       cfg_minRegionArea = 64,
       cfg_mergeRegionArea = 400,
       cfg_maxVertsPerPoly = 6,
       cfg_detailSampleDist = Finite (15099495 / 8388608),
       cfg_detailSampleMaxError = Finite (13421773 / 67108864) \<rparr>"

lemmas run_defs =
  ret_def emit_def raise_def andThen_def seq_def whenever_def deref_def
  Debug_Fatal_def Debug_Assert_def Debug_Warning_def

section \<open>Auxiliary facts\<close>

subsection \<open>Conversions\<close>

lemma truncf_of_int: "truncf (of_int n) = n"
  by (simp add: truncf_def)

lemma float_to_int_of_nonneg:
  "0 \<le> n \<Longrightarrow> n < 2 ^ 31 \<Longrightarrow> float_to_int (Finite (of_int n)) = n"
  by (simp add: truncf_of_int)

lemma ceiling_quotient_nonneg: "0 \<le> a \<Longrightarrow> 0 < b \<Longrightarrow> 0 \<le> \<lceil>a / b :: rat\<rceil>"
  by (simp add: order.strict_trans2 [of "- 1" 0])

subsection \<open>The example, evaluated\<close>

lemma example_walkableHeight: "float_to_int (ceilf (fdiv 2 (13421773 / 67108864))) = 10"
  by code_simp

lemma example_walkableClimb:
  "float_to_int (ceilf (fdiv (13421773 / 33554432) (13421773 / 67108864))) = 2"
  by code_simp

lemma example_walkableRadius: "float_to_int (ceilf (fdiv (1 / 2) (5033165 / 16777216))) = 2"
  by code_simp

lemma example_maxEdgeLen: "float_to_int (fdiv 12 (5033165 / 16777216)) = 40"
  by code_simp

lemma example_minRegionArea: "float_to_int (rcSqr 8) = 64"
  by code_simp

lemma example_mergeRegionArea: "float_to_int (rcSqr 20) = 400"
  by code_simp

lemma example_detailSampleDist: "fmul (5033165 / 16777216) 6 = Finite (15099495 / 8388608)"
  by code_simp

lemma example_detailSampleMaxError: "fmul (13421773 / 67108864) 1 = Finite (13421773 / 67108864)"
  by code_simp

lemma example_ceilf_height: "ceilf (fdiv 2 (13421773 / 67108864)) = Finite 10"
  by code_simp

lemma example_ceilf_climb: "ceilf (fdiv (13421773 / 33554432) (13421773 / 67108864)) = Finite 2"
  by code_simp

lemma example_ceilf_radius: "ceilf (fdiv (1 / 2) (5033165 / 16777216)) = Finite 2"
  by code_simp

lemma example_ceiling_height: "\<lceil>2 / (13421773 / 67108864) :: rat\<rceil> = 10"
  by code_simp

lemma example_ceiling_climb: "\<lceil>(13421773 / 33554432) / (13421773 / 67108864) :: rat\<rceil> = 2"
  by code_simp

lemma example_ceiling_radius: "\<lceil>(1 / 2) / (5033165 / 16777216) :: rat\<rceil> = 2"
  by code_simp

lemma tall_walkableHeight: "float_to_int (ceilf (fdiv 3000000000 1)) = - 2147483648"
  by code_simp

lemma steep_walkableClimb:
  "float_to_int (ceilf (fdiv (5033165 / 8388608) (13421773 / 67108864))) = 3"
  by code_simp

lemma steep_ceiling_climb: "\<lceil>40265320 / 13421773 :: rat\<rceil> = 4"
  by code_simp

lemma example_height_unrounded:
  "ceilf (fdiv (height (agent exampleOptions)) (cellHeight exampleOptions)) =
     Finite (of_int \<lceil>height (agent exampleOptions) / cellHeight exampleOptions\<rceil>) \<and>
   \<lceil>height (agent exampleOptions) / cellHeight exampleOptions\<rceil> = 10"
  by (simp only: exampleOptions_def navMeshOptions.select_convs agentOptions.select_convs
      example_ceilf_height example_ceiling_height) simp

lemma example_climb_unrounded:
  "ceilf (fdiv (maxClimb (agent exampleOptions)) (cellHeight exampleOptions)) =
     Finite (of_int \<lceil>maxClimb (agent exampleOptions) / cellHeight exampleOptions\<rceil>) \<and>
   \<lceil>maxClimb (agent exampleOptions) / cellHeight exampleOptions\<rceil> = 2"
  by (simp only: exampleOptions_def navMeshOptions.select_convs agentOptions.select_convs
      example_ceilf_climb example_ceiling_climb) simp

lemma example_radius_unrounded:
  "ceilf (fdiv (radius (agent exampleOptions)) (cellSize exampleOptions)) =
     Finite (of_int \<lceil>radius (agent exampleOptions) / cellSize exampleOptions\<rceil>) \<and>
   \<lceil>radius (agent exampleOptions) / cellSize exampleOptions\<rceil> = 2"
  by (simp only: exampleOptions_def navMeshOptions.select_convs agentOptions.select_convs
      example_ceilf_radius example_ceiling_radius) simp

lemmas example_values =
  example_walkableHeight example_walkableClimb example_walkableRadius example_maxEdgeLen
  example_minRegionArea example_mergeRegionArea example_detailSampleDist example_detailSampleMaxError

lemma setupConfiguration_example:
  "setupConfiguration (ret_rcCalcGridSize exampleLibrary) exampleOptions (bounds_min exampleMesh)
     (bounds_max exampleMesh) = exampleConfig"
  by (simp add: setupConfiguration_def exampleOptions_def exampleConfig_def exampleLibrary_def
      exampleMesh_def rcVcopy_def example_values)

subsection \<open>Runs\<close>

lemma fst_seq_emit: "fst (seq (emit ev) k) = ev # fst k"
  by (cases k) (simp add: run_defs split: sum.splits)

lemma createSolidHeightfield_allocated:
  "ret_rcAllocHeightfield lib = Some hf \<Longrightarrow>
   createSolidHeightfield lib cfg =
     ([AllocHeightfield (Some hf)], Inl (Fatal ''Build nagivation failed: out of memory''))"
  by (simp add: createSolidHeightfield_def run_defs)

lemma createSolidHeightfield_null:
  "ret_rcAllocHeightfield lib = None \<Longrightarrow>
   createSolidHeightfield lib cfg = ([AllocHeightfield None], Inl NullDereference)"
  by (simp add: createSolidHeightfield_def run_defs)

lemma NavMeshComponent_stops:
  "hasSystemRAMCopy mesh \<Longrightarrow>
   createSolidHeightfield lib
     (setupConfiguration (ret_rcCalcGridSize lib) opt (bounds_min mesh) (bounds_max mesh)) =
     (tr, Inl err) \<Longrightarrow>
   NavMeshComponent lib this mesh opt = (tr, Inl err)"
  by (simp add: NavMeshComponent_def run_defs)

text \<open>
  As the source stands, every run of the constructor ends at the allocation of the solid
  heightfield, in a fatal diagnostic or in the dereference of a null pointer; the only
  library call it makes is that allocation.
\<close>

lemma NavMeshComponent_run:
  "NavMeshComponent lib this mesh opt =
     (if hasSystemRAMCopy mesh
      then ([AllocHeightfield (ret_rcAllocHeightfield lib)],
            Inl (if ret_rcAllocHeightfield lib = None then NullDereference
                 else Fatal ''Build nagivation failed: out of memory''))
      else ([], Inl (AssertionFailed ''MeshAsset must be created with keepInSystemRAM = true'')))"
proof (cases "hasSystemRAMCopy mesh")
  case False
  then show ?thesis by (simp add: NavMeshComponent_def run_defs)
next
  case True
  show ?thesis
  proof (cases "ret_rcAllocHeightfield lib")
    case None
    from NavMeshComponent_stops [OF True createSolidHeightfield_null [OF None]]
    show ?thesis using True None by simp
  next
    case (Some hf)
    from NavMeshComponent_stops [OF True createSolidHeightfield_allocated [OF Some]]
    show ?thesis using True Some by simp
  qed
qed

lemma NavMeshComponent_never_completes:
  "snd (NavMeshComponent lib this mesh opt) \<noteq> Inr c"
  by (simp add: NavMeshComponent_run)

section \<open>The allocation check of the solid heightfield\<close>

text \<open>
  C1.  A bake aborts with a fatal diagnostic if the allocation of the solid heightfield
  fails, and goes on to create the heightfield if it succeeds.  The constructor tests the
  pointer the wrong way round: in the example bake, where \<^verbatim>\<open>rcAllocHeightfield\<close> returns
  an object, the run ends at once in the out-of-memory diagnostic without creating the
  heightfield; where it returns null, no diagnostic is raised and the null pointer is
  dereferenced.
\<close>

theorem heightfield_allocation_check_inverted:
  "NavMeshComponent exampleLibrary exampleComponent exampleMesh exampleOptions =
     ([AllocHeightfield (Some 1)], Inl (Fatal ''Build nagivation failed: out of memory'')) \<and>
   NavMeshComponent (exampleLibrary\<lparr>ret_rcAllocHeightfield := None\<rparr>) exampleComponent exampleMesh
     exampleOptions = ([AllocHeightfield None], Inl NullDereference)"
  by (simp add: NavMeshComponent_run exampleMesh_def exampleLibrary_def)

section \<open>Voxel units\<close>

text \<open>
  The claim C3 as it is stated fails in two ways, each for a valid profile on positive
  cells.  For an agent of height 3000000000 on cells of height 1 the ceiling is no \<^verbatim>\<open>int\<close>
  and the walkable height is the least \<^verbatim>\<open>int\<close>, a negative number.  For a climb of 0.6 on
  cells of height 0.2, as \<^verbatim>\<open>float\<close>s, the quotient is a little more than 3 and its ceiling
  is 4, but the single-precision division rounds it to 3 and the walkable climb is 3.
\<close>

theorem walkable_voxels_not_the_ceiling:
  "0 < height (agent tallAgentOptions) \<and> 0 \<le> radius (agent tallAgentOptions) \<and>
   0 \<le> maxClimb (agent tallAgentOptions) \<and> 0 < cellSize tallAgentOptions \<and>
   0 < cellHeight tallAgentOptions \<and>
   \<lceil>height (agent tallAgentOptions) / cellHeight tallAgentOptions\<rceil> = 3000000000 \<and>
   cfg_walkableHeight (setupConfiguration (ret_rcCalcGridSize exampleLibrary) tallAgentOptions
     (bounds_min exampleMesh) (bounds_max exampleMesh)) = - 2147483648 \<and>
   0 < height (agent steepClimbOptions) \<and> 0 \<le> radius (agent steepClimbOptions) \<and>
   0 \<le> maxClimb (agent steepClimbOptions) \<and> 0 < cellSize steepClimbOptions \<and>
   0 < cellHeight steepClimbOptions \<and>
   \<lceil>maxClimb (agent steepClimbOptions) / cellHeight steepClimbOptions\<rceil> = 4 \<and>
   cfg_walkableClimb (setupConfiguration (ret_rcCalcGridSize exampleLibrary) steepClimbOptions
     (bounds_min exampleMesh) (bounds_max exampleMesh)) = 3"
  by (simp add: tallAgentOptions_def steepClimbOptions_def exampleOptions_def setupConfiguration_def
      tall_walkableHeight steep_walkableClimb steep_ceiling_climb)

text \<open>
  C3, amended.  For every agent profile with height > 0, radius \<ge> 0 and max climb \<ge> 0,
  and strictly positive cell size and cell height, if rounding each of the three quotients
  to single precision leaves its ceiling unchanged and each ceiling is below \<open>2 ^ 31\<close>,
  then the derived configuration has walkable height \<open>\<lceil>height / cellHeight\<rceil>\<close>, walkable climb
  \<open>\<lceil>maxClimb / cellHeight\<rceil>\<close> and walkable radius \<open>\<lceil>radius / cellSize\<rceil>\<close>, each a non-negative
  integer.
\<close>

theorem walkable_voxels_ceiling:
  assumes "0 < height (agent opt)" and "0 \<le> radius (agent opt)" and "0 \<le> maxClimb (agent opt)"
    and "0 < cellSize opt" and "0 < cellHeight opt"
    and "ceilf (fdiv (height (agent opt)) (cellHeight opt)) =
           Finite (of_int \<lceil>height (agent opt) / cellHeight opt\<rceil>)"
    and "ceilf (fdiv (maxClimb (agent opt)) (cellHeight opt)) =
           Finite (of_int \<lceil>maxClimb (agent opt) / cellHeight opt\<rceil>)"
    and "ceilf (fdiv (radius (agent opt)) (cellSize opt)) =
           Finite (of_int \<lceil>radius (agent opt) / cellSize opt\<rceil>)"
    and "\<lceil>height (agent opt) / cellHeight opt\<rceil> < 2 ^ 31"
    and "\<lceil>maxClimb (agent opt) / cellHeight opt\<rceil> < 2 ^ 31"
    and "\<lceil>radius (agent opt) / cellSize opt\<rceil> < 2 ^ 31"
  shows "cfg_walkableHeight (setupConfiguration g opt bmn bmx) = \<lceil>height (agent opt) / cellHeight opt\<rceil> \<and>
     cfg_walkableClimb (setupConfiguration g opt bmn bmx) = \<lceil>maxClimb (agent opt) / cellHeight opt\<rceil> \<and>
     cfg_walkableRadius (setupConfiguration g opt bmn bmx) = \<lceil>radius (agent opt) / cellSize opt\<rceil> \<and>
     0 \<le> cfg_walkableHeight (setupConfiguration g opt bmn bmx) \<and>
     0 \<le> cfg_walkableClimb (setupConfiguration g opt bmn bmx) \<and>
     0 \<le> cfg_walkableRadius (setupConfiguration g opt bmn bmx)"
proof -
  have h: "0 \<le> \<lceil>height (agent opt) / cellHeight opt\<rceil>"
    using assms(1,5) by (intro ceiling_quotient_nonneg) simp_all
  have c: "0 \<le> \<lceil>maxClimb (agent opt) / cellHeight opt\<rceil>"
    using assms(3,5) by (intro ceiling_quotient_nonneg) simp_all
  have r: "0 \<le> \<lceil>radius (agent opt) / cellSize opt\<rceil>"
    using assms(2,4) by (intro ceiling_quotient_nonneg) simp_all
  have "cfg_walkableHeight (setupConfiguration g opt bmn bmx) = \<lceil>height (agent opt) / cellHeight opt\<rceil>"
    unfolding setupConfiguration_def
    by (simp only: rcConfig.select_convs assms(6) float_to_int_of_nonneg [OF h assms(9)])
  moreover
  have "cfg_walkableClimb (setupConfiguration g opt bmn bmx) = \<lceil>maxClimb (agent opt) / cellHeight opt\<rceil>"
    unfolding setupConfiguration_def
    by (simp only: rcConfig.select_convs assms(7) float_to_int_of_nonneg [OF c assms(10)])
  moreover
  have "cfg_walkableRadius (setupConfiguration g opt bmn bmx) = \<lceil>radius (agent opt) / cellSize opt\<rceil>"
    unfolding setupConfiguration_def
    by (simp only: rcConfig.select_convs assms(8) float_to_int_of_nonneg [OF r assms(11)])
  ultimately show ?thesis
    using h c r by simp
qed

text \<open>The example options meet the hypotheses: 10, 2 and 2 voxels.\<close>

theorem walkable_voxels_ceiling_example:
  "cfg_walkableHeight (setupConfiguration (ret_rcCalcGridSize exampleLibrary) exampleOptions
     (bounds_min exampleMesh) (bounds_max exampleMesh)) = 10 \<and>
   cfg_walkableClimb (setupConfiguration (ret_rcCalcGridSize exampleLibrary) exampleOptions
     (bounds_min exampleMesh) (bounds_max exampleMesh)) = 2 \<and>
   cfg_walkableRadius (setupConfiguration (ret_rcCalcGridSize exampleLibrary) exampleOptions
     (bounds_min exampleMesh) (bounds_max exampleMesh)) = 2"
proof -
  have pos: "0 < height (agent exampleOptions)" "0 \<le> radius (agent exampleOptions)"
    "0 \<le> maxClimb (agent exampleOptions)" "0 < cellSize exampleOptions" "0 < cellHeight exampleOptions"
    by (simp_all add: exampleOptions_def)
  note h = example_height_unrounded and c = example_climb_unrounded and r = example_radius_unrounded
  have small: "\<lceil>height (agent exampleOptions) / cellHeight exampleOptions\<rceil> < 2 ^ 31"
    "\<lceil>maxClimb (agent exampleOptions) / cellHeight exampleOptions\<rceil> < 2 ^ 31"
    "\<lceil>radius (agent exampleOptions) / cellSize exampleOptions\<rceil> < 2 ^ 31"
    by (simp_all add: h c r)
  from walkable_voxels_ceiling [OF pos h [THEN conjunct1] c [THEN conjunct1] r [THEN conjunct1] small,
      of "ret_rcCalcGridSize exampleLibrary" "bounds_min exampleMesh" "bounds_max exampleMesh"]
  show ?thesis
    by (simp add: h c r)
qed

section \<open>The span filters\<close>

text \<open>
  The block of step 3 calls the three filters on the same heightfield, in the order of the
  claim and with nothing between them.
\<close>

lemma filterWalkableAreas_calls:
  "filterWalkableAreas cfg solid =
     ([FilterLowHangingWalkableObstacles (cfg_walkableClimb cfg) solid,
       FilterLedgeSpans (cfg_walkableHeight cfg) (cfg_walkableClimb cfg) solid,
       FilterWalkableLowHeightSpans (cfg_walkableHeight cfg) solid], Inr ())"
  by (simp add: filterWalkableAreas_def run_defs)

text \<open>
  C4.  Every bake applies the three span filters to the heightfield, in this order: low
  hanging walkable obstacles, ledge spans, walkable spans of low height.  As the source
  stands no bake applies any of them: whatever the library returns, the constructor is
  stopped by the inverted allocation check before step 3, and its calls contain no filter.
\<close>

theorem span_filters_never_applied:
  "filter isSpanFilter (fst (NavMeshComponent lib this mesh opt)) = []"
  by (simp add: NavMeshComponent_run)

section \<open>The region partitioners\<close>




section \<open>The detail sample distance\<close>

text \<open>
  Step 1 derives the distance for every configuration, and the block of step 7 passes it
  on unchanged once the detail mesh is allocated.
\<close>

lemma cfg_detailSampleDist_setupConfiguration:
  "cfg_detailSampleDist (setupConfiguration g opt bmn bmx) =
     (if detailSampleDist opt < 9 / 10 then Finite 0 else fmul (cellSize opt) (detailSampleDist opt))"
  by (simp add: setupConfiguration_def)

lemma createDetailMesh_distance:
  "ret_rcAllocPolyMeshDetail lib = Some dm \<Longrightarrow>
   detailSampleDistancesPassed (fst (createDetailMesh lib cfg pm chf)) = [cfg_detailSampleDist cfg]"
  by (simp add: createDetailMesh_def run_defs split: option.splits)

text \<open>
  C9.  The sample distance the detail mesh builder is given is 0 when the configured
  \<^verbatim>\<open>detailSampleDist\<close> is below 0.9, and the product of the cell size and the configured
  \<^verbatim>\<open>detailSampleDist\<close> otherwise.  In the example bake step 1 derives the distance, 6 cells,
  but the builder is given nothing: the constructor is stopped by the inverted allocation
  check long before step 7.
\<close>

theorem detail_sample_distance_never_passed:
  "cfg_detailSampleDist (setupConfiguration (ret_rcCalcGridSize exampleLibrary) exampleOptions
     (bounds_min exampleMesh) (bounds_max exampleMesh)) = Finite (15099495 / 8388608) \<and>
   detailSampleDistancesPassed
     (fst (NavMeshComponent exampleLibrary exampleComponent exampleMesh exampleOptions)) = []"
  by (simp add: NavMeshComponent_run setupConfiguration_example exampleConfig_def)

section \<open>The triangle-area array\<close>

text \<open>
  Whatever the mesh, the classifier is called third, with the number of indices as its
  triangle count and an array of a third as many elements; for every mesh with an index
  (and fewer than \<open>2 ^ 31\<close> of them) the count exceeds the length of the array.
\<close>

lemma size_to_int_small: "n < 2 ^ 31 \<Longrightarrow> size_to_int n = int n"
  by (simp add: size_to_int_def signed_of_nat signed_take_bit_int_eq_self)

lemma rasterizeInputPolygon_classifier_call:
  "\<exists>rest. fst (rasterizeInputPolygon lib cfg rawData vertsOnly solid) =
     NewArray (length (indices rawData) div 3) #
     Memset (length (indices rawData) div 3) (length (indices rawData) div 3) #
     MarkWalkableTriangles (cfg_walkableSlopeAngle cfg) vertsOnly (size_to_int (length (vertices rawData)))
       (indices rawData) (size_to_int (length (indices rawData))) (length (indices rawData) div 3) # rest"
  by (simp add: rasterizeInputPolygon_def Let_def fst_seq_emit)

lemma classifier_count_exceeds_array:
  assumes "0 < length (indices rawData)" and "length (indices rawData) < 2 ^ 31"
  shows "int (length (indices rawData) div 3) < size_to_int (length (indices rawData))"
  using assms by (simp add: size_to_int_small)

text \<open>
  C10.  The triangle count given to the classifier never exceeds the length of the
  triangle-area array, which has one byte per triangle.  The constructor passes the number
  of indices where the classifier takes the number of triangles: for the two triangles of
  the example the array has 2 elements and the classifier is told of 6 triangles.
\<close>

theorem triangle_count_exceeds_area_array:
  "fst (rasterizeInputPolygon exampleLibrary exampleConfig (systemCopy exampleMesh)
          (copyPositions (vertices (systemCopy exampleMesh))) 1) =
     [NewArray 2, Memset 2 2,
      MarkWalkableTriangles 45 [(0, 0, 0), (10, 0, 0), (10, 0, 10), (0, 0, 10)] 4 [0, 2, 1, 0, 3, 2] 6 2,
      RasterizeTriangles [(0, 0, 0), (10, 0, 0), (10, 0, 10), (0, 0, 10)] 2 4 1,
      DeleteArray 2]"
  by (simp add: rasterizeInputPolygon_def run_defs exampleMesh_def exampleLibrary_def
      exampleConfig_def exampleVertex_def size_to_int_def)

section \<open>The vertex limit of the runtime format\<close>

text \<open>
  C2.  The runtime mesh and query are produced exactly when the configured maximum of
  vertices per polygon does not exceed \<^verbatim>\<open>DT_VERTS_PER_POLYGON\<close>; above the limit a warning
  is emitted and there is no fatal abort.  In the example bake the maximum is 6, the limit
  is 6 and every library call succeeds, yet the constructor ends in a fatal diagnostic
  with no mesh and no query; with a maximum of 7 it ends in the same fatal diagnostic and
  emits no warning.  Step 8 taken alone, with every call succeeding and the members null
  on entry, keeps the mesh in a local variable and dereferences the null query member.
\<close>

theorem no_runtime_mesh_within_limit:
  "cfg_maxVertsPerPoly exampleConfig \<le> DT_VERTS_PER_POLYGON exampleLibrary \<and>
   snd (NavMeshComponent exampleLibrary exampleComponent exampleMesh exampleOptions) =
     Inl (Fatal ''Build nagivation failed: out of memory'') \<and>
   snd (NavMeshComponent exampleLibrary exampleComponent exampleMesh
          (exampleOptions\<lparr>maxVertsPerPoly := 7\<rparr>)) =
     Inl (Fatal ''Build nagivation failed: out of memory'') \<and>
   Warning ''Cannot generate Detour data for NavMesh - too many vertices'' \<notin>
     set (fst (NavMeshComponent exampleLibrary exampleComponent exampleMesh
                 (exampleOptions\<lparr>maxVertsPerPoly := 7\<rparr>))) \<and>
   createDetourData exampleLibrary exampleComponent exampleOptions exampleConfig examplePolyMesh
     examplePolyMeshDetail =
     ([CreateNavMeshData
         (navMeshCreateParams exampleOptions exampleConfig examplePolyMesh examplePolyMeshDetail)
         (Some (7, 100)),
       AllocNavMesh (Some 8),
       NavMeshInit 8 (Some 7) 100 DT_TILE_FREE_DATA True],
      Inl NullDereference)"
  by (simp add: NavMeshComponent_run createDetourData_def run_defs exampleMesh_def exampleLibrary_def
      exampleConfig_def exampleComponent_def)

section \<open>Failures of the serialization stage\<close>

text \<open>
  C6.  A failure in the serialization stage is fatal, and every runtime object or blob
  already constructed is freed before the abort.  When the initialisation of the runtime
  mesh fails, the mesh object 8 has been allocated and the blob 7 created: the blob is
  freed, the mesh object is not, and the bake aborts fatally.
\<close>

theorem navmesh_not_freed_on_init_failure:
  "createDetourData (exampleLibrary\<lparr>ret_dtNavMesh_init := False\<rparr>) exampleComponent exampleOptions
     exampleConfig examplePolyMesh examplePolyMeshDetail =
     ([CreateNavMeshData
         (navMeshCreateParams exampleOptions exampleConfig examplePolyMesh examplePolyMeshDetail)
         (Some (7, 100)),
       AllocNavMesh (Some 8),
       NavMeshInit 8 (Some 7) 100 DT_TILE_FREE_DATA False,
       DtFree (Some 7)],
      Inl (Fatal ''Could not init Detour navmesh'')) \<and>
   DtFree (Some 8) \<notin> set (fst (createDetourData (exampleLibrary\<lparr>ret_dtNavMesh_init := False\<rparr>)
     exampleComponent exampleOptions exampleConfig examplePolyMesh examplePolyMeshDetail))"
  by (simp add: createDetourData_def run_defs exampleLibrary_def exampleConfig_def exampleComponent_def)

section \<open>The destructor\<close>

text \<open>
  The claim C7 as it is stated fails on a component whose members hold a mesh 8, a query 9
  and a blob 7: the mesh member is released before the query member, and the blob is
  released too.
\<close>

theorem destructor_frees_mesh_first_and_blob:
  "NavMeshComponent_destructor \<lparr> navMesh = Some 8, navMeshQuery = Some 9, navData = Some 7 \<rparr> =
     ([DtFree (Some 8), DtFree (Some 9), DtFree (Some 7)], Inr ())"
  by (simp add: NavMeshComponent_destructor_def run_defs)

text \<open>
  C7, amended.  At component destruction the destructor passes the component's
  \<^verbatim>\<open>navMesh\<close> member and its \<^verbatim>\<open>navMeshQuery\<close> member to \<^verbatim>\<open>dtFree\<close> together, whatever they
  hold, the mesh member first and the query member after it.
\<close>

theorem destructor_release_order:
  "\<exists>rest. NavMeshComponent_destructor this =
     (DtFree (navMesh this) # DtFree (navMeshQuery this) # rest, Inr ())"
  by (simp add: NavMeshComponent_destructor_def run_defs)

theorem destructor_release_order_example:
  "\<exists>rest. NavMeshComponent_destructor \<lparr> navMesh = Some 8, navMeshQuery = Some 9, navData = None \<rparr> =
     (DtFree (Some 8) # DtFree (Some 9) # rest, Inr ())"
  using destructor_release_order [of "\<lparr> navMesh = Some 8, navMeshQuery = Some 9, navData = None \<rparr>"]
  by simp

end
